theory Spec2Isabelle
  imports Complex_Main "HOL-Library.Word"
begin

unbundle bit_operations_syntax

section \<open>Python values: exceptions, bytes and the struct module\<close>

text \<open>
  The driver \<^verbatim>\<open>custom_components/pax_ble/ble_fan.py\<close> is a Python class \<^verbatim>\<open>BleFan\<close>
  whose methods pack and unpack fixed byte layouts and hand them to a BLE transport.
  Every \<^verbatim>\<open>raise\<close> of the source, and every exception of the library calls it makes,
  is a value of \<open>exn\<close>; a method returns \<open>exn + 'a\<close> together with the object after
  the call. Python integers are unbounded and modelled as \<open>int\<close>; a byte of a
  \<^verbatim>\<open>bytearray\<close> is an \<open>8 word\<close>.
\<close>

datatype exn =
    ValueError string
  | StructError
  | AttributeError string
  | KeyError
  | BleakError
  | UnicodeEncodeError
  | UnicodeDecodeError
  | TransportError string

type_synonym byte = "8 word"

text \<open>
  \<^verbatim>\<open>struct.pack\<close> with the little-endian formats \<^verbatim>\<open>B\<close> (1 byte), \<^verbatim>\<open>H\<close> (2 bytes)
  and \<^verbatim>\<open>I\<close> (4 bytes): a value outside the field's unsigned range raises
  \<^verbatim>\<open>struct.error\<close>.
\<close>

definition pack_B :: "int \<Rightarrow> exn + byte list" where
  "pack_B v = (if 0 \<le> v \<and> v \<le> 255 then Inr [word_of_int v] else Inl StructError)"

definition pack_H :: "int \<Rightarrow> exn + byte list" where
  "pack_H v =
     (if 0 \<le> v \<and> v \<le> 65535 then Inr [word_of_int v, word_of_int (v div 256)]
      else Inl StructError)"

definition pack_I :: "int \<Rightarrow> exn + byte list" where
  "pack_I v =
     (if 0 \<le> v \<and> v \<le> 4294967295
      then Inr [word_of_int v, word_of_int (v div 256),
                word_of_int (v div 65536), word_of_int (v div 16777216)]
      else Inl StructError)"

text \<open>Fields of one \<^verbatim>\<open>pack\<close> call are laid out one after the other.\<close>

definition pack_then :: "exn + byte list \<Rightarrow> exn + byte list \<Rightarrow> exn + byte list" where
  "pack_then a b =
     (case a of Inl e \<Rightarrow> Inl e
      | Inr x \<Rightarrow> (case b of Inl e \<Rightarrow> Inl e | Inr y \<Rightarrow> Inr (x @ y)))"

definition pack_HHH :: "int \<Rightarrow> int \<Rightarrow> int \<Rightarrow> exn + byte list" where
  "pack_HHH a b c = pack_then (pack_H a) (pack_then (pack_H b) (pack_H c))"

definition pack_BHH :: "int \<Rightarrow> int \<Rightarrow> int \<Rightarrow> exn + byte list" where
  "pack_BHH a b c = pack_then (pack_B a) (pack_then (pack_H b) (pack_H c))"

text \<open>
  \<^verbatim>\<open>pack("20s", b)\<close>: the first 20 bytes of \<open>b\<close>, padded with null bytes up to 20.
\<close>

definition pack_20s :: "byte list \<Rightarrow> byte list" where
  "pack_20s b = take 20 b @ replicate (20 - length b) 0"

text \<open>
  \<^verbatim>\<open>struct.unpack\<close>: the buffer must have exactly the size of the format, else
  \<^verbatim>\<open>struct.error\<close>. The result is the tuple of fields, here a list of integers.
\<close>

definition unpack_H :: "byte \<Rightarrow> byte \<Rightarrow> int" where
  "unpack_H lo hi = uint lo + 256 * uint hi"

definition unpack_HHH :: "byte list \<Rightarrow> exn + int list" where
  "unpack_HHH bs =
     (if length bs = 6
      then Inr [unpack_H (bs ! 0) (bs ! 1), unpack_H (bs ! 2) (bs ! 3),
                unpack_H (bs ! 4) (bs ! 5)]
      else Inl StructError)"

definition unpack_BHH :: "byte list \<Rightarrow> exn + int list" where
  "unpack_BHH bs =
     (if length bs = 5
      then Inr [uint (bs ! 0), unpack_H (bs ! 1) (bs ! 2), unpack_H (bs ! 3) (bs ! 4)]
      else Inl StructError)"

definition unpack_4B :: "byte list \<Rightarrow> exn + int list" where
  "unpack_4B bs =
     (if length bs = 4 then Inr [uint (bs ! 0), uint (bs ! 1), uint (bs ! 2), uint (bs ! 3)]
      else Inl StructError)"

definition unpack_4HBHB :: "byte list \<Rightarrow> exn + int list" where
  "unpack_4HBHB bs =
     (if length bs = 12
      then Inr [unpack_H (bs ! 0) (bs ! 1), unpack_H (bs ! 2) (bs ! 3),
                unpack_H (bs ! 4) (bs ! 5), unpack_H (bs ! 6) (bs ! 7),
                uint (bs ! 8), unpack_H (bs ! 9) (bs ! 10), uint (bs ! 11)]
      else Inl StructError)"

text \<open>\<^verbatim>\<open>unpack("<b", ...)\<close>: one signed byte.\<close>

definition unpack_b :: "byte list \<Rightarrow> exn + int list" where
  "unpack_b bs = (if length bs = 1 then Inr [sint (bs ! 0)] else Inl StructError)"

text \<open>
  \<^verbatim>\<open>bytearray([...])\<close> of a list of integers: each must be in \<^verbatim>\<open>range(256)\<close>,
  else \<^verbatim>\<open>ValueError\<close>.
\<close>

definition bytearray_of_ints :: "int list \<Rightarrow> exn + byte list" where
  "bytearray_of_ints xs =
     (if list_all (\<lambda>x. 0 \<le> x \<and> x \<le> 255) xs then Inr (map word_of_int xs)
      else Inl (ValueError ''byte must be in range(0, 256)''))"

text \<open>
  \<^verbatim>\<open>bytearray(name, "utf-8")\<close>: a Python string is a sequence of code points
  (naturals below \<open>0x110000\<close>); a surrogate cannot be encoded.
\<close>

definition utf8_char :: "nat \<Rightarrow> exn + byte list" where
  "utf8_char c =
     (if c < 128 then Inr [of_nat c]
      else if c < 2048 then Inr [of_nat (192 + c div 64), of_nat (128 + c mod 64)]
      else if 55296 \<le> c \<and> c < 57344 then Inl UnicodeEncodeError
      else if c < 65536
        then Inr [of_nat (224 + c div 4096), of_nat (128 + (c div 64) mod 64),
                  of_nat (128 + c mod 64)]
      else if c < 1114112
        then Inr [of_nat (240 + c div 262144), of_nat (128 + (c div 4096) mod 64),
                  of_nat (128 + (c div 64) mod 64), of_nat (128 + c mod 64)]
      else Inl UnicodeEncodeError)"

fun utf8_encode :: "nat list \<Rightarrow> exn + byte list" where
  "utf8_encode [] = Inr []"
| "utf8_encode (c # cs) = pack_then (utf8_char c) (utf8_encode cs)"

text \<open>
  Python's \<^verbatim>\<open>a and b\<close> on integers: \<open>a\<close> when \<open>a\<close> is falsy (zero), else \<open>b\<close>.
\<close>

definition py_and :: "int \<Rightarrow> int \<Rightarrow> int" where
  "py_and a b = (if a = 0 then a else b)"

text \<open>
  \<^verbatim>\<open>round(x, 2)\<close> and the float arithmetic of \<^verbatim>\<open>getState\<close> are read over the real
  numbers the floats stand for: rounding to two decimals, ties to the even neighbour.
\<close>

definition round_half_even :: "real \<Rightarrow> int" where
  "round_half_even x =
     (let f = \<lfloor>x\<rfloor>; d = x - of_int f
      in if d < 1 / 2 then f else if 1 / 2 < d then f + 1 else if even f then f else f + 1)"

definition py_round2 :: "real \<Rightarrow> real" where
  "py_round2 x = of_int (round_half_even (x * 100)) / 100"

section \<open>The transport and the fan object\<close>

text \<open>
  The names \<^verbatim>\<open>CHARACTERISTIC_...\<close> come from the module
  \<^verbatim>\<open>devices.characteristics\<close>, and the table \<^verbatim>\<open>self.device.chars\<close> from the device
  classes \<^verbatim>\<open>Calima\<close> and \<^verbatim>\<open>Svara\<close>; neither module is part of the sources at hand.
  The constants are kept as names (\<open>Const\<close> is the value of the module constant), and the
  table is a field of the object, a dictionary whose missing key raises
  \<^verbatim>\<open>KeyError\<close>.
\<close>

datatype characteristic =
    CHARACTERISTIC_PIN_CODE
  | CHARACTERISTIC_PIN_CONFIRMATION
  | CHARACTERISTIC_FAN_DESCRIPTION
  | CHARACTERISTIC_SENSOR_DATA
  | CHARACTERISTIC_LEVEL_OF_FAN_SPEED
  | CHARACTERISTIC_SENSITIVITY
  | CHARACTERISTIC_BOOST

datatype char_specifier = Const characteristic | Uuid string | Handle int

text \<open>
  What the object asks of the platform, in order: resolving the address, connecting and
  disconnecting a client, reading and writing a characteristic.
\<close>

datatype event =
    Resolve
  | Connect
  | Disconnect
  | Read char_specifier
  | Write char_specifier "byte list"

text \<open>
  A \<^verbatim>\<open>BleakClient\<close>: whether it reports a live link, what a read of a characteristic
  returns or raises, whether a write or a disconnect raises.
\<close>

record client =
  is_connected :: bool
  read_gatt_char :: "char_specifier \<Rightarrow> exn + byte list"
  write_gatt_char :: "char_specifier \<Rightarrow> byte list \<Rightarrow> exn option"
  disconnect_raises :: "exn option"

datatype level = DEBUG | INFO

record BleFan =
  dev :: "client option"
  chars :: "characteristic \<Rightarrow> char_specifier option"
  pin :: int
  mac :: string
  io :: "event list"
  logged :: "(level \<times> string) list"

definition logger :: "level \<Rightarrow> string \<Rightarrow> BleFan \<Rightarrow> BleFan" where
  "logger lv msg self = self\<lparr>logged := logged self @ [(lv, msg)]\<rparr>"

definition device_chars :: "BleFan \<Rightarrow> characteristic \<Rightarrow> exn + char_specifier" where
  "device_chars self k = (case chars self k of None \<Rightarrow> Inl KeyError | Some u \<Rightarrow> Inr u)"

text \<open>
  The attributes an instance of \<^verbatim>\<open>BleFan\<close> has: those \<^verbatim>\<open>__init__\<close> sets, the class
  attribute \<^verbatim>\<open>device\<close> and the methods. Any other name raises \<^verbatim>\<open>AttributeError\<close>.
  A coroutine object (the value of calling an \<^verbatim>\<open>async def\<close> without awaiting it) has
  the attributes of the coroutine protocol only.
\<close>

definition BleFan_attributes :: "string list" where
  "BleFan_attributes =
     [''device'', ''_hass'', ''_dev'', ''_model'', ''_mac'', ''_pin'',
      ''authorize'', ''connect'', ''disconnect'', ''isConnected'', ''_bToStr'',
      ''_readUUID'', ''_readHandle'', ''_writeUUID'', ''getDeviceName'',
      ''getModelNumber'', ''getSerialNumber'', ''getHardwareRevision'',
      ''getFirmwareRevision'', ''getSoftwareRevision'', ''getManufacturer'',
      ''setAuth'', ''checkAuth'', ''setAlias'', ''getAlias'', ''getIsClockSet'',
      ''getState'', ''getFactorySettingsChanged'', ''getMode'', ''setFanSpeedSettings'',
      ''getFanSpeedSettings'', ''setSensorsSensitivity'', ''getSensorsSensitivity'',
      ''setLightSensorSettings'', ''getLightSensorSettings'', ''getHeatDistributor'',
      ''setBoostMode'', ''getBoostMode'', ''getLed'', ''setAutomaticCycles'',
      ''getAutomaticCycles'', ''setTime'', ''getTime'', ''setTimeToNow'',
      ''setSilentHours'', ''getSilentHours'', ''setTrickleDays'', ''getTrickleDays'',
      ''getReset'', ''resetDevice'', ''resetValues'']"

definition coroutine_attributes :: "string list" where
  "coroutine_attributes =
     [''send'', ''throw'', ''close'', ''cr_await'', ''cr_code'', ''cr_frame'',
      ''cr_running'', ''cr_origin'', ''cr_suspended'']"

subsection \<open>Connection lifecycle\<close>

definition isConnected :: "BleFan \<Rightarrow> bool" where
  "isConnected self = (case dev self of None \<Rightarrow> False | Some c \<Rightarrow> is_connected c)"

text \<open>
  One pass through the \<^verbatim>\<open>try\<close> block of \<^verbatim>\<open>connect\<close>, as the platform answers it:
  the address lookup raises, or finds no device (the source then raises
  \<^verbatim>\<open>BleakError\<close> itself), or a client is made and stored in \<^verbatim>\<open>self._dev\<close> and its
  \<^verbatim>\<open>connect()\<close> raises or returns a value whose truth is \<open>ret\<close>.
\<close>

datatype attempt =
    ResolveRaised exn
  | Unresolved
  | ConnectRaised exn client
  | ConnectReturned bool client

definition try_connect :: "attempt \<Rightarrow> BleFan \<Rightarrow> (exn + bool) \<times> BleFan" where
  "try_connect a self =
     (case a of
        ResolveRaised e \<Rightarrow> (Inl e, self\<lparr>io := io self @ [Resolve]\<rparr>)
      | Unresolved \<Rightarrow> (Inl BleakError, self\<lparr>io := io self @ [Resolve]\<rparr>)
      | ConnectRaised e c \<Rightarrow>
          (Inl e, self\<lparr>dev := Some c, io := io self @ [Resolve, Connect]\<rparr>)
      | ConnectReturned ret c \<Rightarrow>
          (Inr ret, self\<lparr>dev := Some c, io := io self @ [Resolve, Connect]\<rparr>))"

text \<open>
  The \<^verbatim>\<open>while tries < retries\<close> loop; \<open>env n\<close> is what happens at the \<open>n\<close>-th pass.
  The \<^verbatim>\<open>except Exception\<close> clause catches every exception of the pass and only logs.
\<close>

function connect_loop :: "(int \<Rightarrow> attempt) \<Rightarrow> int \<Rightarrow> int \<Rightarrow> BleFan \<Rightarrow> BleFan" where
  "connect_loop env retries tries self =
     (if tries < retries then
        (case try_connect (env (tries + 1)) self of
           (Inr ret, self1) \<Rightarrow>
             if ret then logger DEBUG ''Connected to %s'' self1
             else connect_loop env retries (tries + 1) self1
         | (Inl e, self1) \<Rightarrow>
             if tries + 1 = retries
             then connect_loop env retries (tries + 1)
                    (logger INFO ''Not able to connect to %s! %s'' self1)
             else connect_loop env retries (tries + 1)
                    (logger DEBUG ''Retrying %s'' self1))
      else self)"
  by pat_completeness auto
termination
  by (relation "measure (\<lambda>(env, retries, tries, self). nat (retries - tries))") auto

declare connect_loop.simps [simp del]

definition connect :: "(int \<Rightarrow> attempt) \<Rightarrow> BleFan \<Rightarrow> int \<Rightarrow> (exn + bool) \<times> BleFan" where
  "connect env self retries =
     (if isConnected self then (Inr True, self)
      else
        let self1 = connect_loop env retries 0 (logger DEBUG ''Connecting to %s'' self)
        in (Inr (isConnected self1), self1))"

definition disconnect :: "BleFan \<Rightarrow> (exn + unit) \<times> BleFan" where
  "disconnect self =
     (case dev self of
        None \<Rightarrow> (Inr (), self)
      | Some c \<Rightarrow>
          let self1 = self\<lparr>io := io self @ [Disconnect]\<rparr>;
              self2 = (case disconnect_raises c of
                         None \<Rightarrow> self1
                       | Some e \<Rightarrow> logger INFO ''Error disconnecting from %s! %s'' self1)
          in (Inr (), self2\<lparr>dev := None\<rparr>))"

text \<open>
  \<^verbatim>\<open>_readUUID\<close> and \<^verbatim>\<open>_writeUUID\<close> call a method of \<^verbatim>\<open>self._dev\<close>; with no client
  (\<^verbatim>\<open>None\<close>) the attribute lookup raises.
\<close>

definition readUUID :: "BleFan \<Rightarrow> char_specifier \<Rightarrow> (exn + byte list) \<times> BleFan" where
  "readUUID self uuid =
     (case dev self of
        None \<Rightarrow> (Inl (AttributeError ''read_gatt_char''), self)
      | Some c \<Rightarrow> (read_gatt_char c uuid, self\<lparr>io := io self @ [Read uuid]\<rparr>))"

definition writeUUID :: "BleFan \<Rightarrow> char_specifier \<Rightarrow> byte list \<Rightarrow> (exn + unit) \<times> BleFan" where
  "writeUUID self uuid val =
     (case dev self of
        None \<Rightarrow> (Inl (AttributeError ''write_gatt_char''), self)
      | Some c \<Rightarrow>
          ((case write_gatt_char c uuid val of None \<Rightarrow> Inr () | Some e \<Rightarrow> Inl e),
           self\<lparr>io := io self @ [Write uuid val]\<rparr>))"

subsection \<open>Authorization and alias\<close>

definition getattr :: "string list \<Rightarrow> string \<Rightarrow> exn option" where
  "getattr attributes name =
     (if name \<in> set attributes then None else Some (AttributeError name))"

text \<open>
  \<^verbatim>\<open>setAuth\<close> evaluates the arguments of \<^verbatim>\<open>self._writeUUID(...)\<close> from left to right:
  first \<^verbatim>\<open>self.chars.CHARACTERISTIC_PIN_CODE\<close>, an attribute \<^verbatim>\<open>chars\<close> of the fan object
  itself (every other method goes through \<^verbatim>\<open>self.device.chars[...]\<close>), then
  \<^verbatim>\<open>pack("<I", int(pin))\<close>.
\<close>

definition setAuth :: "BleFan \<Rightarrow> int \<Rightarrow> (exn + unit) \<times> BleFan" where
  "setAuth self p =
     (case getattr BleFan_attributes ''chars'' of
        Some e \<Rightarrow> (Inl e, self)
      | None \<Rightarrow>
          (case pack_I p of
             Inl e \<Rightarrow> (Inl e, self)
           | Inr bs \<Rightarrow> writeUUID self (Const CHARACTERISTIC_PIN_CODE) bs))"

definition authorize :: "BleFan \<Rightarrow> (exn + unit) \<times> BleFan" where
  "authorize self = setAuth self (pin self)"

definition checkAuth :: "BleFan \<Rightarrow> (exn + bool) \<times> BleFan" where
  "checkAuth self =
     (case device_chars self CHARACTERISTIC_PIN_CONFIRMATION of
        Inl e \<Rightarrow> (Inl e, self)
      | Inr u \<Rightarrow>
          (case readUUID self u of
             (Inl e, self1) \<Rightarrow> (Inl e, self1)
           | (Inr bs, self1) \<Rightarrow>
               (case unpack_b bs of
                  Inl e \<Rightarrow> (Inl e, self1)
                | Inr v \<Rightarrow> (Inr (v ! 0 \<noteq> 0), self1))))"

definition setAlias :: "BleFan \<Rightarrow> nat list \<Rightarrow> (exn + unit) \<times> BleFan" where
  "setAlias self name =
     (case device_chars self CHARACTERISTIC_FAN_DESCRIPTION of
        Inl e \<Rightarrow> (Inl e, self)
      | Inr u \<Rightarrow>
          (case utf8_encode name of
             Inl e \<Rightarrow> (Inl e, self)
           | Inr b \<Rightarrow> writeUUID self u (pack_20s b)))"

text \<open>
  \<^verbatim>\<open>bytes.decode("utf-8")\<close>, strict: continuation bytes, no overlong form, no
  surrogate, nothing above \<open>0x10FFFF\<close>.
\<close>

definition continuation :: "byte \<Rightarrow> bool" where
  "continuation b = (128 \<le> unat b \<and> unat b < 192)"

definition decoded_then :: "nat \<Rightarrow> exn + nat list \<Rightarrow> exn + nat list" where
  "decoded_then c r = (case r of Inl e \<Rightarrow> Inl e | Inr cs \<Rightarrow> Inr (c # cs))"

fun utf8_decode :: "byte list \<Rightarrow> exn + nat list" where
  "utf8_decode [] = Inr []"
| "utf8_decode (b # bs) =
     (if unat b < 128 then decoded_then (unat b) (utf8_decode bs)
      else if 194 \<le> unat b \<and> unat b < 224 then
        (case bs of
           c1 # r \<Rightarrow>
             if continuation c1
             then decoded_then ((unat b - 192) * 64 + (unat c1 - 128)) (utf8_decode r)
             else Inl UnicodeDecodeError
         | _ \<Rightarrow> Inl UnicodeDecodeError)
      else if 224 \<le> unat b \<and> unat b < 240 then
        (case bs of
           c1 # c2 # r \<Rightarrow>
             (let cp = (unat b - 224) * 4096 + (unat c1 - 128) * 64 + (unat c2 - 128)
              in if continuation c1 \<and> continuation c2 \<and> 2048 \<le> cp
                    \<and> (cp < 55296 \<or> 57344 \<le> cp)
                 then decoded_then cp (utf8_decode r)
                 else Inl UnicodeDecodeError)
         | _ \<Rightarrow> Inl UnicodeDecodeError)
      else if 240 \<le> unat b \<and> unat b < 245 then
        (case bs of
           c1 # c2 # c3 # r \<Rightarrow>
             (let cp = (unat b - 240) * 262144 + (unat c1 - 128) * 4096
                       + (unat c2 - 128) * 64 + (unat c3 - 128)
              in if continuation c1 \<and> continuation c2 \<and> continuation c3
                    \<and> 65536 \<le> cp \<and> cp < 1114112
                 then decoded_then cp (utf8_decode r)
                 else Inl UnicodeDecodeError)
         | _ \<Rightarrow> Inl UnicodeDecodeError)
      else Inl UnicodeDecodeError)"

text \<open>
  \<^verbatim>\<open>getAlias\<close> is \<^verbatim>\<open>return await self._readUUID(...).decode("utf-8")\<close>. In Python
  \<^verbatim>\<open>await\<close> takes a whole primary as its operand, so \<^verbatim>\<open>.decode\<close> is looked up on the
  value of the call \<^verbatim>\<open>self._readUUID(...)\<close>: the coroutine object, whose body has not
  run (no read has been issued). The methods beside it write
  \<^verbatim>\<open>(await self._readHandle(...)).decode("ascii")\<close>, with the parentheses. Only if a
  coroutine had an attribute \<^verbatim>\<open>decode\<close> would the read and the decoding take place.
\<close>

definition getAlias :: "BleFan \<Rightarrow> (exn + nat list) \<times> BleFan" where
  "getAlias self =
     (case device_chars self CHARACTERISTIC_FAN_DESCRIPTION of
        Inl e \<Rightarrow> (Inl e, self)
      | Inr u \<Rightarrow>
          (case getattr coroutine_attributes ''decode'' of
             Some e \<Rightarrow> (Inl e, self)
           | None \<Rightarrow>
               (case readUUID self u of
                  (Inl e, self1) \<Rightarrow> (Inl e, self1)
                | (Inr bs, self1) \<Rightarrow> (utf8_decode bs, self1))))"

subsection \<open>Sensor data\<close>

record FanState =
  Humidity :: real
  Temp :: real
  Light :: int
  RPM :: int
  Mode :: string

text \<open>The \<^verbatim>\<open>if\<close>/\<^verbatim>\<open>elif\<close> chain of \<^verbatim>\<open>getState\<close> over the mode byte \<^verbatim>\<open>v[4]\<close>.\<close>

definition trigger_of :: "int \<Rightarrow> string" where
  "trigger_of m =
     (if (drop_bit 4 m) AND 1 = 1 then ''Boost''
      else if (drop_bit 6 m) AND 3 = 3 then ''Switch''
      else if m AND 3 = 1 then ''Trickle ventilation''
      else if m AND 3 = 2 then ''Light ventilation''
      else if m AND 3 = 3 then ''Humidity ventilation''
      else ''No trigger'')"

definition FanState_of :: "int list \<Rightarrow> FanState" where
  "FanState_of v =
     \<lparr>Humidity = (if v ! 0 > 30 then py_round2 (log 2 (of_int (v ! 0 - 30)) * 10) else 0),
      Temp = of_int (v ! 1) / 4 - 26 / 10,
      Light = v ! 2,
      RPM = v ! 3,
      Mode = trigger_of (v ! 4)\<rparr>"

definition getState :: "BleFan \<Rightarrow> (exn + FanState) \<times> BleFan" where
  "getState self =
     (case device_chars self CHARACTERISTIC_SENSOR_DATA of
        Inl e \<Rightarrow> (Inl e, self)
      | Inr u \<Rightarrow>
          (case readUUID self u of
             (Inl e, self1) \<Rightarrow> (Inl e, self1)
           | (Inr bs, self1) \<Rightarrow>
               (case unpack_4HBHB bs of
                  Inl e \<Rightarrow> (Inl e, self1)
                | Inr v \<Rightarrow> (Inr (FanState_of v), logger DEBUG ''Read Fan States: %s'' self1))))"

subsection \<open>Fan speeds, sensitivity, boost\<close>

record Fanspeeds =
  speed_Humidity :: int
  speed_Light :: int
  speed_Trickle :: int

record Sensitivity =
  HumidityOn :: int
  sens_Humidity :: int
  LightOn :: int
  sens_Light :: int

text \<open>The \<^verbatim>\<open>for val in (humidity, light, trickle)\<close> loop: the first offending value raises.\<close>

fun check_speeds :: "int list \<Rightarrow> exn option" where
  "check_speeds [] = None"
| "check_speeds (val # vals) =
     (if val mod 25 \<noteq> 0 then Some (ValueError ''Speeds should be multiples of 25'')
      else if val > 2500 \<or> val < 0
        then Some (ValueError ''Speeds must be between 0 and 2500 rpm'')
      else check_speeds vals)"

definition setFanSpeedSettings ::
    "BleFan \<Rightarrow> int \<Rightarrow> int \<Rightarrow> int \<Rightarrow> (exn + unit) \<times> BleFan" where
  "setFanSpeedSettings self humidity light trickle =
     (case check_speeds [humidity, light, trickle] of
        Some e \<Rightarrow> (Inl e, self)
      | None \<Rightarrow>
          (let self1 = logger DEBUG ''Calima setFanSpeedSettings: %s %s %s'' self
           in case device_chars self1 CHARACTERISTIC_LEVEL_OF_FAN_SPEED of
                Inl e \<Rightarrow> (Inl e, self1)
              | Inr u \<Rightarrow>
                  (case pack_HHH humidity light trickle of
                     Inl e \<Rightarrow> (Inl e, self1)
                   | Inr bs \<Rightarrow> writeUUID self1 u bs)))"

definition getFanSpeedSettings :: "BleFan \<Rightarrow> (exn + Fanspeeds) \<times> BleFan" where
  "getFanSpeedSettings self =
     (case device_chars self CHARACTERISTIC_LEVEL_OF_FAN_SPEED of
        Inl e \<Rightarrow> (Inl e, self)
      | Inr u \<Rightarrow>
          (case readUUID self u of
             (Inl e, self1) \<Rightarrow> (Inl e, self1)
           | (Inr bs, self1) \<Rightarrow>
               (case unpack_HHH bs of
                  Inl e \<Rightarrow> (Inl e, self1)
                | Inr v \<Rightarrow>
                    (Inr \<lparr>speed_Humidity = v ! 0, speed_Light = v ! 1, speed_Trickle = v ! 2\<rparr>,
                     self1))))"

text \<open>
  \<^verbatim>\<open>getSensorsSensitivity\<close> reads the module constant itself as the characteristic,
  unpacks four bytes, rebuilds a \<^verbatim>\<open>bytearray\<close> with each level behind its flag
  (\<^verbatim>\<open>l.HumidityOn and l.Humidity\<close>) and unpacks that again.
\<close>

definition getSensorsSensitivity :: "BleFan \<Rightarrow> (exn + Sensitivity) \<times> BleFan" where
  "getSensorsSensitivity self =
     (case readUUID self (Const CHARACTERISTIC_SENSITIVITY) of
        (Inl e, self1) \<Rightarrow> (Inl e, self1)
      | (Inr bs, self1) \<Rightarrow>
          (case unpack_4B bs of
             Inl e \<Rightarrow> (Inl e, self1)
           | Inr l \<Rightarrow>
               (case bytearray_of_ints
                       [l ! 0, py_and (l ! 0) (l ! 1), l ! 2, py_and (l ! 2) (l ! 3)] of
                  Inl e \<Rightarrow> (Inl e, self1)
                | Inr bs2 \<Rightarrow>
                    (case unpack_4B bs2 of
                       Inl e \<Rightarrow> (Inl e, self1)
                     | Inr v \<Rightarrow>
                         (Inr \<lparr>HumidityOn = v ! 0, sens_Humidity = v ! 1,
                               LightOn = v ! 2, sens_Light = v ! 3\<rparr>,
                          self1)))))"

text \<open>
  \<^verbatim>\<open>setBoostMode(on, speed, seconds)\<close>: \<open>on\<close> is the flag; \<^verbatim>\<open>pack\<close> writes
  \<^verbatim>\<open>True\<close> as 1 and \<^verbatim>\<open>False\<close> as 0.
\<close>

definition setBoostMode :: "BleFan \<Rightarrow> bool \<Rightarrow> int \<Rightarrow> int \<Rightarrow> (exn + unit) \<times> BleFan" where
  "setBoostMode self on speed seconds =
     (if speed mod 25 \<noteq> 0 then (Inl (ValueError ''Speed must be a multiple of 25''), self)
      else
        (let speed1 = (if \<not> on then 0 else speed);
             seconds1 = (if \<not> on then 0 else seconds)
         in case device_chars self CHARACTERISTIC_BOOST of
              Inl e \<Rightarrow> (Inl e, self)
            | Inr u \<Rightarrow>
                (case pack_BHH (if on then 1 else 0) speed1 seconds1 of
                   Inl e \<Rightarrow> (Inl e, self)
                 | Inr bs \<Rightarrow> writeUUID self u bs)))"

subsection \<open>A fan to run the methods on\<close>

definition example_client :: "bool \<Rightarrow> (char_specifier \<Rightarrow> exn + byte list) \<Rightarrow> exn option \<Rightarrow> client" where
  "example_client live rd dr =
     \<lparr>is_connected = live, read_gatt_char = rd, write_gatt_char = (\<lambda>u v. None),
      disconnect_raises = dr\<rparr>"

definition example_fan :: "client option \<Rightarrow> BleFan" where
  "example_fan d =
     \<lparr>dev = d, chars = (\<lambda>k. Some (Const k)), pin = 1234, mac = ''58:2B:DB:00:00:01'',
      io = [], logged = []\<rparr>"

definition reading :: "byte list \<Rightarrow> char_specifier \<Rightarrow> exn + byte list" where
  "reading bs u = Inr bs"

text \<open>The legal domain of a fan speed: a multiple of 25 between 0 and 2500.\<close>

definition legal_speed :: "int \<Rightarrow> bool" where
  "legal_speed v = (v mod 25 = 0 \<and> 0 \<le> v \<and> v \<le> 2500)"

text \<open>
  Connection attempts are counted by the address lookups the object has asked for, one
  per pass of the retry loop. An attempt succeeds when \<^verbatim>\<open>connect()\<close> returns a true
  value and the client reports a live link; it fails when something raises, or
  \<^verbatim>\<open>connect()\<close> returns a false value, and the client (if one was made) reports no link.
\<close>

definition attempts :: "BleFan \<Rightarrow> nat" where
  "attempts self = length (filter (\<lambda>e. e = Resolve) (io self))"

definition succeeds :: "attempt \<Rightarrow> bool" where
  "succeeds a = (case a of ConnectReturned ret c \<Rightarrow> ret \<and> is_connected c | _ \<Rightarrow> False)"

definition fails :: "attempt \<Rightarrow> bool" where
  "fails a =
     (case a of
        ResolveRaised e \<Rightarrow> True
      | Unresolved \<Rightarrow> True
      | ConnectRaised e c \<Rightarrow> \<not> is_connected c
      | ConnectReturned ret c \<Rightarrow> \<not> ret \<and> \<not> is_connected c)"

text \<open>Two failures, then a success at the third attempt; and an address never found.\<close>

definition third_time :: "int \<Rightarrow> attempt" where
  "third_time n =
     (if n = 1 then Unresolved
      else if n = 2 then ConnectRaised BleakError (example_client False (reading []) None)
      else ConnectReturned True (example_client True (reading []) None))"

definition never_found :: "int \<Rightarrow> attempt" where
  "never_found n = Unresolved"

definition fan_reading :: "byte list \<Rightarrow> BleFan" where
  "fan_reading bs = example_fan (Some (example_client True (reading bs) None))"

section \<open>Decoding the sensor data\<close>

lemma and3_mod4: "(m::int) AND 3 = m mod 4"
  using take_bit_eq_mask [of 2 m] by (simp add: take_bit_eq_mod mask_eq_exp_minus_1)

lemma and1_mod2: "(m::int) AND 1 = m mod 2"
  by (simp add: and_one_eq)

lemma boost_bit: "(drop_bit 4 (m::int) AND 1 = 1) = bit m 4"
  by (simp add: and1_mod2 drop_bit_eq_div bit_iff_odd odd_iff_mod_2_eq_one)

lemma mod4_is_3: "((k::int) mod 4 = 3) = (odd k \<and> odd (k div 2))"
  by presburger

lemma switch_bits: "(drop_bit 6 (m::int) AND 3 = 3) = (bit m 6 \<and> bit m 7)"
proof -
  have "m div 128 = m div 64 div 2" by simp
  then show ?thesis
    by (simp add: and3_mod4 drop_bit_eq_div bit_iff_odd mod4_is_3)
qed

lemma trigger_of_int:
  "trigger_of m =
     (if bit m 4 then ''Boost''
      else if bit m 6 \<and> bit m 7 then ''Switch''
      else if m mod 4 = 1 then ''Trickle ventilation''
      else if m mod 4 = 2 then ''Light ventilation''
      else if m mod 4 = 3 then ''Humidity ventilation''
      else ''No trigger'')"
  unfolding trigger_of_def boost_bit switch_bits by (simp only: and3_mod4)

lemma trigger_of_byte:
  "trigger_of (uint (b::byte)) =
     (if bit b 4 then ''Boost''
      else if bit b 6 \<and> bit b 7 then ''Switch''
      else if uint b mod 4 = 1 then ''Trickle ventilation''
      else if uint b mod 4 = 2 then ''Light ventilation''
      else if uint b mod 4 = 3 then ''Humidity ventilation''
      else ''No trigger'')"
  unfolding trigger_of_int by (simp only: bit_uint_iff) simp

lemma getState_unpacks:
  assumes "chars self CHARACTERISTIC_SENSOR_DATA = Some u" and "dev self = Some c"
    and "read_gatt_char c u = Inr bs" and "length bs = 12"
  shows "fst (getState self) =
           Inr (FanState_of
                  [unpack_H (bs ! 0) (bs ! 1), unpack_H (bs ! 2) (bs ! 3),
                   unpack_H (bs ! 4) (bs ! 5), unpack_H (bs ! 6) (bs ! 7),
                   uint (bs ! 8), unpack_H (bs ! 9) (bs ! 10), uint (bs ! 11)])"
  using assms by (simp add: getState_def device_chars_def readUUID_def unpack_4HBHB_def)

lemma log2_64: "log 2 64 = (6::real)"
proof -
  have "log 2 (2 ^ 6) = (6::real)" by (simp only: log_pow_cancel)
  then show ?thesis by simp
qed

lemma round_half_even_int: "round_half_even (of_int n) = n"
  by (simp add: round_half_even_def)

lemma py_round2_60: "py_round2 60 = 60"
proof -
  have "(60 * 100 :: real) = of_int 6000" by simp
  then have "round_half_even (60 * 100) = 6000"
    by (simp only: round_half_even_int)
  then show ?thesis by (simp add: py_round2_def)
qed

lemma fan_reading_simps:
  "chars (fan_reading bs) k = Some (Const k)"
  "dev (fan_reading bs) = Some (example_client True (reading bs) None)"
  "read_gatt_char (example_client True (reading bs) None) u = Inr bs"
  "io (fan_reading bs) = []"
  by (simp_all add: fan_reading_def example_fan_def example_client_def reading_def)

text \<open>
  C1, as the code has it. Whenever the sensor-data characteristic reads as 12 bytes,
  \<^verbatim>\<open>getState\<close> returns: humidity \<open>round(log2(raw0 - 30) * 10, 2)\<close> when \<open>raw0 > 30\<close> and
  exactly 0 otherwise (the logarithm is taken in that branch only), temperature
  \<open>raw1 / 4 - 2.6\<close>, light \<open>raw2\<close> and speed \<open>raw3\<close> unchanged, where \<open>raw0..raw3\<close> are the
  four little-endian 16-bit fields, and the trigger of the mode byte. The arithmetic is
  that of the reals.
\<close>

theorem getState_decode:
  assumes "chars self CHARACTERISTIC_SENSOR_DATA = Some u" and "dev self = Some c"
    and "read_gatt_char c u = Inr bs" and "length bs = 12"
  shows "fst (getState self) =
           Inr \<lparr>Humidity =
                  (if 30 < uint (bs ! 0) + 256 * uint (bs ! 1)
                   then py_round2 (log 2 (of_int (uint (bs ! 0) + 256 * uint (bs ! 1) - 30)) * 10)
                   else 0),
                Temp = of_int (uint (bs ! 2) + 256 * uint (bs ! 3)) / 4 - 26 / 10,
                Light = uint (bs ! 4) + 256 * uint (bs ! 5),
                RPM = uint (bs ! 6) + 256 * uint (bs ! 7),
                Mode = trigger_of (uint (bs ! 8))\<rparr>"
  unfolding getState_unpacks [OF assms] by (simp add: FanState_of_def unpack_H_def)

text \<open>
  The payload of the specification, \<open>(v0 = 94, v1 = 50, v2 = 10, v3 = 1800, mode = 0x10)\<close>:
  humidity 60, temperature \<open>50 / 4 - 2.6 = 9.9\<close>, light 10, speed 1800, trigger Boost.
\<close>

theorem getState_decode_witness:
  "chars (fan_reading [94, 0, 50, 0, 10, 0, 8, 7, 16, 0, 0, 0]) CHARACTERISTIC_SENSOR_DATA
     = Some (Const CHARACTERISTIC_SENSOR_DATA)
   \<and> length [94, 0, 50, 0, 10, 0, 8, 7, 16, 0, 0, 0 :: byte] = 12
   \<and> fst (getState (fan_reading [94, 0, 50, 0, 10, 0, 8, 7, 16, 0, 0, 0])) =
       Inr \<lparr>Humidity = 60, Temp = 99 / 10, Light = 10, RPM = 1800, Mode = ''Boost''\<rparr>"
  using getState_decode [of "fan_reading [94, 0, 50, 0, 10, 0, 8, 7, 16, 0, 0, 0]"
      "Const CHARACTERISTIC_SENSOR_DATA"
      "example_client True (reading [94, 0, 50, 0, 10, 0, 8, 7, 16, 0, 0, 0]) None"
      "[94, 0, 50, 0, 10, 0, 8, 7, 16, 0, 0, 0]"]
  by (simp add: fan_reading_simps trigger_of_def log2_64 py_round2_60)

text \<open>
  C1 as stated gives the temperature of that payload as 10.0. The code returns 9.9, so
  the decoded state is not the one the specification lists.
\<close>

theorem getState_payload_counterexample:
  "fst (getState (fan_reading [94, 0, 50, 0, 10, 0, 8, 7, 16, 0, 0, 0])) \<noteq>
     Inr \<lparr>Humidity = 60, Temp = 10, Light = 10, RPM = 1800, Mode = ''Boost''\<rparr>"
  by (simp add: getState_def device_chars_def readUUID_def unpack_4HBHB_def
      fan_reading_simps FanState_of_def unpack_H_def)

text \<open>
  C2. Whenever the sensor-data characteristic reads as 12 bytes, the trigger that
  \<^verbatim>\<open>getState\<close> returns is decided by the mode byte (the ninth byte) alone, the first
  matching test winning: bit 4 set gives Boost; else bits 6 and 7 both set give Switch;
  else the low two bits equal to 1, 2, 3 give Trickle, Light, Humidity ventilation; else
  no trigger.
\<close>

theorem getState_trigger_priority:
  assumes "chars self CHARACTERISTIC_SENSOR_DATA = Some u" and "dev self = Some c"
    and "read_gatt_char c u = Inr bs" and "length bs = 12"
  shows "map_sum id Mode (fst (getState self)) =
           Inr (if bit (bs ! 8) 4 then ''Boost''
                else if bit (bs ! 8) 6 \<and> bit (bs ! 8) 7 then ''Switch''
                else if uint (bs ! 8) mod 4 = 1 then ''Trickle ventilation''
                else if uint (bs ! 8) mod 4 = 2 then ''Light ventilation''
                else if uint (bs ! 8) mod 4 = 3 then ''Humidity ventilation''
                else ''No trigger'')"
  unfolding getState_unpacks [OF assms]
  by (simp only: FanState_of_def trigger_of_byte [symmetric]) simp

text \<open>
  Mode byte \<open>0xC3\<close>: bits 6 and 7 are set and the low two bits are 3; Switch is tested
  before Humidity ventilation and wins.
\<close>

theorem getState_trigger_priority_witness:
  "length [0, 0, 0, 0, 0, 0, 0, 0, 195, 0, 0, 0 :: byte] = 12
   \<and> map_sum id Mode (fst (getState (fan_reading [0, 0, 0, 0, 0, 0, 0, 0, 195, 0, 0, 0])))
       = Inr ''Switch''"
  using getState_trigger_priority [of "fan_reading [0, 0, 0, 0, 0, 0, 0, 0, 195, 0, 0, 0]"
      "Const CHARACTERISTIC_SENSOR_DATA"
      "example_client True (reading [0, 0, 0, 0, 0, 0, 0, 0, 195, 0, 0, 0]) None"
      "[0, 0, 0, 0, 0, 0, 0, 0, 195, 0, 0, 0]"]
  by (simp add: fan_reading_simps bit_numeral_word_iff)

section \<open>Sensitivity\<close>

lemma uint_byte_range: "0 \<le> uint b \<and> uint b \<le> 255" for b :: byte
  using uint_lt2p [of b] by simp

text \<open>
  C4. For every four bytes \<open>(humOn, hum, lightOn, light)\<close> read from the sensitivity
  characteristic, \<^verbatim>\<open>getSensorsSensitivity\<close> returns the two flags as read and each
  level as 0 when its flag byte is zero, as read otherwise.
\<close>

theorem getSensorsSensitivity_normalizes:
  assumes "dev self = Some c"
    and "read_gatt_char c (Const CHARACTERISTIC_SENSITIVITY) = Inr [humOn, hum, lightOn, light]"
  shows "fst (getSensorsSensitivity self) =
           Inr \<lparr>HumidityOn = uint humOn,
                sens_Humidity = (if humOn = 0 then 0 else uint hum),
                LightOn = uint lightOn,
                sens_Light = (if lightOn = 0 then 0 else uint light)\<rparr>"
  using assms uint_byte_range [of humOn] uint_byte_range [of hum]
    uint_byte_range [of lightOn] uint_byte_range [of light]
  by (simp add: getSensorsSensitivity_def readUUID_def unpack_4B_def bytearray_of_ints_def
      py_and_def uint_0_iff)

text \<open>The raw bytes \<open>(0, 3, 1, 2)\<close> of the specification decode to \<open>(0, 0, 1, 2)\<close>.\<close>

theorem getSensorsSensitivity_normalizes_witness:
  "dev (fan_reading [0, 3, 1, 2]) = Some (example_client True (reading [0, 3, 1, 2]) None)
   \<and> fst (getSensorsSensitivity (fan_reading [0, 3, 1, 2])) =
       Inr \<lparr>HumidityOn = 0, sens_Humidity = 0, LightOn = 1, sens_Light = 2\<rparr>"
  using getSensorsSensitivity_normalizes [of "fan_reading [0, 3, 1, 2]"
      "example_client True (reading [0, 3, 1, 2]) None" 0 3 1 2]
  by (simp add: fan_reading_simps)

section \<open>Fan speed settings\<close>

lemma unpack_pack_H:
  assumes "0 \<le> v" and "v \<le> 65535"
  shows "unpack_H (word_of_int v) (word_of_int (v div 256)) = v"
proof -
  have "v div 256 < 256" using assms by simp
  moreover have "0 \<le> v div 256" using assms by simp
  ultimately have "v div 256 mod 256 = v div 256" by simp
  then show ?thesis
    by (simp add: unpack_H_def uint_word_of_int take_bit_eq_mod)
qed

lemma check_speeds_legal:
  "check_speeds [h, l, t] = None \<longleftrightarrow> legal_speed h \<and> legal_speed l \<and> legal_speed t"
  by (auto simp add: legal_speed_def)

lemma check_speeds_ValueError: "check_speeds vs = Some e \<Longrightarrow> \<exists>msg. e = ValueError msg"
  by (induction vs) (auto split: if_splits)

lemma pack_HHH_legal:
  assumes "legal_speed h" "legal_speed l" "legal_speed t"
  shows "pack_HHH h l t =
           Inr [word_of_int h, word_of_int (h div 256), word_of_int l, word_of_int (l div 256),
                word_of_int t, word_of_int (t div 256)]"
  using assms by (simp add: pack_HHH_def pack_H_def pack_then_def legal_speed_def)

lemma setFanSpeedSettings_rejects:
  assumes "\<not> (legal_speed h \<and> legal_speed l \<and> legal_speed t)"
  shows "\<exists>msg. setFanSpeedSettings self h l t = (Inl (ValueError msg), self)"
proof -
  from assms obtain e where e: "check_speeds [h, l, t] = Some e"
    using check_speeds_legal [of h l t] by (cases "check_speeds [h, l, t]") auto
  then obtain msg where "e = ValueError msg" using check_speeds_ValueError by blast
  with e show ?thesis by (simp add: setFanSpeedSettings_def)
qed

lemma setFanSpeedSettings_writes:
  assumes "legal_speed h \<and> legal_speed l \<and> legal_speed t"
    and "chars self CHARACTERISTIC_LEVEL_OF_FAN_SPEED = Some u" and "dev self = Some c"
  shows "io (snd (setFanSpeedSettings self h l t)) =
           io self @ [Write u [word_of_int h, word_of_int (h div 256), word_of_int l,
                               word_of_int (l div 256), word_of_int t, word_of_int (t div 256)]]"
proof -
  have "check_speeds [h, l, t] = None" using assms(1) check_speeds_legal by blast
  then show ?thesis
    using assms pack_HHH_legal [of h l t]
    by (simp add: setFanSpeedSettings_def device_chars_def logger_def writeUUID_def Let_def)
qed

lemma getFanSpeedSettings_reads:
  assumes "chars self CHARACTERISTIC_LEVEL_OF_FAN_SPEED = Some u" and "dev self = Some c"
    and "read_gatt_char c u = Inr [a0, a1, b0, b1, c0, c1]"
  shows "fst (getFanSpeedSettings self) =
           Inr \<lparr>speed_Humidity = unpack_H a0 a1, speed_Light = unpack_H b0 b1,
                speed_Trickle = unpack_H c0 c1\<rparr>"
  using assms by (simp add: getFanSpeedSettings_def device_chars_def readUUID_def unpack_HHH_def)

text \<open>
  C3. If one of the three speeds is not a multiple of 25 or lies outside \<open>[0, 2500]\<close>,
  \<^verbatim>\<open>setFanSpeedSettings\<close> raises \<^verbatim>\<open>ValueError\<close> and the object is as before: nothing
  was asked of the transport. If all three are legal, and the profile names the
  characteristic and a client exists, the transport is asked to write the three values as
  little-endian 16-bit fields.
\<close>

theorem setFanSpeedSettings_validation:
  "(\<not> (legal_speed h \<and> legal_speed l \<and> legal_speed t) \<longrightarrow>
      (\<exists>msg. setFanSpeedSettings self h l t = (Inl (ValueError msg), self)))
   \<and> (legal_speed h \<and> legal_speed l \<and> legal_speed t
        \<and> chars self CHARACTERISTIC_LEVEL_OF_FAN_SPEED = Some u \<and> dev self = Some c \<longrightarrow>
      io (snd (setFanSpeedSettings self h l t)) =
        io self @ [Write u [word_of_int h, word_of_int (h div 256), word_of_int l,
                            word_of_int (l div 256), word_of_int t, word_of_int (t div 256)]])"
  using setFanSpeedSettings_rejects [of h l t self] setFanSpeedSettings_writes [of h l t self u c]
  by blast

text \<open>
  The speeds \<open>(2250, 1630, 1000)\<close> are rejected (1630 is no multiple of 25);
  \<open>(2250, 1625, 1000)\<close> are written as the bytes \<open>CA 08 59 06 E8 03\<close>.
\<close>

theorem setFanSpeedSettings_validation_witness:
  "\<not> (legal_speed 2250 \<and> legal_speed 1630 \<and> legal_speed 1000)
   \<and> (\<exists>msg. setFanSpeedSettings (fan_reading []) 2250 1630 1000
               = (Inl (ValueError msg), fan_reading []))
   \<and> legal_speed 2250 \<and> legal_speed 1625 \<and> legal_speed 1000
   \<and> io (snd (setFanSpeedSettings (fan_reading []) 2250 1625 1000)) =
        [Write (Const CHARACTERISTIC_LEVEL_OF_FAN_SPEED) [202, 8, 89, 6, 232, 3]]"
  using setFanSpeedSettings_validation [of 2250 1630 1000 "fan_reading []"]
    setFanSpeedSettings_validation [of 2250 1625 1000 "fan_reading []"
      "Const CHARACTERISTIC_LEVEL_OF_FAN_SPEED" "example_client True (reading []) None"]
  by (simp add: fan_reading_simps legal_speed_def)

text \<open>
  C5. For legal speeds \<open>(h, l, t)\<close>, the bytes that \<^verbatim>\<open>setFanSpeedSettings\<close> hands to
  the transport are \<^verbatim>\<open>pack("<HHH", h, l, t)\<close>; unpacking them gives \<open>(h, l, t)\<close>, and
  \<^verbatim>\<open>getFanSpeedSettings\<close> on any fan whose characteristic reads as these bytes returns
  \<open>(h, l, t)\<close>.
\<close>

theorem fan_speeds_round_trip:
  assumes "legal_speed h" and "legal_speed l" and "legal_speed t"
    and "chars self CHARACTERISTIC_LEVEL_OF_FAN_SPEED = Some u" and "dev self = Some c"
  shows "\<exists>bs. io (snd (setFanSpeedSettings self h l t)) = io self @ [Write u bs]
           \<and> pack_HHH h l t = Inr bs
           \<and> unpack_HHH bs = Inr [h, l, t]
           \<and> (\<forall>self' u' c'.
                 chars self' CHARACTERISTIC_LEVEL_OF_FAN_SPEED = Some u' \<and> dev self' = Some c'
                 \<and> read_gatt_char c' u' = Inr bs \<longrightarrow>
                 fst (getFanSpeedSettings self') =
                   Inr \<lparr>speed_Humidity = h, speed_Light = l, speed_Trickle = t\<rparr>)"
proof -
  let ?bs = "[word_of_int h, word_of_int (h div 256), word_of_int l, word_of_int (l div 256),
              word_of_int t, word_of_int (t div 256)] :: byte list"
  have r: "unpack_H (word_of_int v) (word_of_int (v div 256)) = v" if "legal_speed v" for v
    using that by (intro unpack_pack_H) (simp_all add: legal_speed_def)
  have 1: "io (snd (setFanSpeedSettings self h l t)) = io self @ [Write u ?bs]"
    using assms by (intro setFanSpeedSettings_writes) simp_all
  have 2: "pack_HHH h l t = Inr ?bs"
    using assms by (intro pack_HHH_legal)
  have 3: "unpack_HHH ?bs = Inr [h, l, t]"
    using assms by (simp add: unpack_HHH_def r)
  have 4: "fst (getFanSpeedSettings self') =
             Inr \<lparr>speed_Humidity = h, speed_Light = l, speed_Trickle = t\<rparr>"
    if "chars self' CHARACTERISTIC_LEVEL_OF_FAN_SPEED = Some u'" "dev self' = Some c'"
      "read_gatt_char c' u' = Inr ?bs" for self' u' c'
    using getFanSpeedSettings_reads [OF that] assms by (simp add: r)
  from 1 2 3 4 show ?thesis by blast
qed

text \<open>The default speeds \<open>(2250, 1625, 1000)\<close>, written and read back.\<close>

theorem fan_speeds_round_trip_witness:
  "legal_speed 2250 \<and> legal_speed 1625 \<and> legal_speed 1000
   \<and> io (snd (setFanSpeedSettings (fan_reading []) 2250 1625 1000)) =
        [Write (Const CHARACTERISTIC_LEVEL_OF_FAN_SPEED) [202, 8, 89, 6, 232, 3]]
   \<and> fst (getFanSpeedSettings (fan_reading [202, 8, 89, 6, 232, 3])) =
        Inr \<lparr>speed_Humidity = 2250, speed_Light = 1625, speed_Trickle = 1000\<rparr>"
proof -
  have legal: "legal_speed 2250" "legal_speed 1625" "legal_speed 1000"
    by (simp_all add: legal_speed_def)
  from fan_speeds_round_trip [OF legal, of "fan_reading []"
      "Const CHARACTERISTIC_LEVEL_OF_FAN_SPEED" "example_client True (reading []) None"]
  obtain bs where bs: "io (snd (setFanSpeedSettings (fan_reading []) 2250 1625 1000)) =
        [Write (Const CHARACTERISTIC_LEVEL_OF_FAN_SPEED) bs]"
      "pack_HHH 2250 1625 1000 = Inr bs"
    and rd: "\<And>self' u' c'. chars self' CHARACTERISTIC_LEVEL_OF_FAN_SPEED = Some u' \<Longrightarrow>
        dev self' = Some c' \<Longrightarrow> read_gatt_char c' u' = Inr bs \<Longrightarrow>
        fst (getFanSpeedSettings self') =
          Inr \<lparr>speed_Humidity = 2250, speed_Light = 1625, speed_Trickle = 1000\<rparr>"
    by (auto simp add: fan_reading_simps)
  have "pack_HHH 2250 1625 1000 = Inr [202, 8, 89, 6, 232, 3]"
    by (simp add: pack_HHH_def pack_H_def pack_then_def)
  with bs(2) have eq: "bs = [202, 8, 89, 6, 232, 3]" by simp
  have "fst (getFanSpeedSettings (fan_reading bs)) =
          Inr \<lparr>speed_Humidity = 2250, speed_Light = 1625, speed_Trickle = 1000\<rparr>"
    by (rule rd [of "fan_reading bs" "Const CHARACTERISTIC_LEVEL_OF_FAN_SPEED"
          "example_client True (reading bs) None"]) (simp_all add: fan_reading_simps)
  with bs(1) eq legal show ?thesis by simp
qed

section \<open>Boost mode\<close>

lemma setBoostMode_off:
  assumes "speed mod 25 = 0" and "chars self CHARACTERISTIC_BOOST = Some u" and "dev self = Some c"
  shows "io (snd (setBoostMode self False speed seconds)) = io self @ [Write u [0, 0, 0, 0, 0]]"
  using assms
  by (simp add: setBoostMode_def device_chars_def pack_BHH_def pack_B_def pack_H_def
      pack_then_def writeUUID_def)

lemma setBoostMode_on:
  assumes "speed mod 25 = 0" and "chars self CHARACTERISTIC_BOOST = Some u" and "dev self = Some c"
    and "0 \<le> speed" "speed \<le> 65535" "0 \<le> seconds" "seconds \<le> 65535"
  shows "io (snd (setBoostMode self True speed seconds)) =
           io self @ [Write u [1, word_of_int speed, word_of_int (speed div 256),
                               word_of_int seconds, word_of_int (seconds div 256)]]"
  using assms
  by (simp add: setBoostMode_def device_chars_def pack_BHH_def pack_B_def pack_H_def
      pack_then_def writeUUID_def)

lemma setBoostMode_on_overflow:
  assumes "speed mod 25 = 0" and "chars self CHARACTERISTIC_BOOST = Some u"
    and "speed < 0 \<or> 65535 < speed \<or> seconds < 0 \<or> 65535 < seconds"
  shows "setBoostMode self True speed seconds = (Inl StructError, self)"
  using assms
  by (auto simp add: setBoostMode_def device_chars_def pack_BHH_def pack_B_def pack_H_def
      pack_then_def)

text \<open>
  C6, as the code has it. A speed that is no multiple of 25 is rejected with
  \<^verbatim>\<open>ValueError\<close> and the object is as before. For a multiple of 25 (the profile naming
  the characteristic and a client existing): with \<open>on\<close> false the payload handed to the
  transport unpacks to \<open>(0, 0, 0)\<close> whatever speed and seconds were given; with \<open>on\<close>
  true, and speed and seconds both within the unsigned 16-bit range of their fields, it
  unpacks to \<open>(1, speed, seconds)\<close>.
\<close>

theorem setBoostMode_payload:
  "(speed mod 25 \<noteq> 0 \<longrightarrow>
      setBoostMode self on speed seconds =
        (Inl (ValueError ''Speed must be a multiple of 25''), self))
   \<and> (speed mod 25 = 0 \<and> chars self CHARACTERISTIC_BOOST = Some u \<and> dev self = Some c \<longrightarrow>
        (\<not> on \<longrightarrow>
           (\<exists>bs. io (snd (setBoostMode self on speed seconds)) = io self @ [Write u bs]
                 \<and> unpack_BHH bs = Inr [0, 0, 0]))
      \<and> (on \<and> 0 \<le> speed \<and> speed \<le> 65535 \<and> 0 \<le> seconds \<and> seconds \<le> 65535 \<longrightarrow>
           (\<exists>bs. io (snd (setBoostMode self on speed seconds)) = io self @ [Write u bs]
                 \<and> unpack_BHH bs = Inr [1, speed, seconds])))"
proof (intro conjI impI)
  assume "speed mod 25 \<noteq> 0"
  then show "setBoostMode self on speed seconds =
        (Inl (ValueError ''Speed must be a multiple of 25''), self)"
    by (simp add: setBoostMode_def)
next
  assume a: "speed mod 25 = 0 \<and> chars self CHARACTERISTIC_BOOST = Some u \<and> dev self = Some c"
    and "\<not> on"
  then have "io (snd (setBoostMode self on speed seconds)) = io self @ [Write u [0, 0, 0, 0, 0]]"
    using setBoostMode_off [of speed self u c seconds] by simp
  moreover have "unpack_BHH [0, 0, 0, 0, 0] = Inr [0, 0, 0]"
    by (simp add: unpack_BHH_def unpack_H_def)
  ultimately show "\<exists>bs. io (snd (setBoostMode self on speed seconds)) = io self @ [Write u bs]
                 \<and> unpack_BHH bs = Inr [0, 0, 0]"
    by blast
next
  assume a: "speed mod 25 = 0 \<and> chars self CHARACTERISTIC_BOOST = Some u \<and> dev self = Some c"
    and b: "on \<and> 0 \<le> speed \<and> speed \<le> 65535 \<and> 0 \<le> seconds \<and> seconds \<le> 65535"
  let ?bs = "[1, word_of_int speed, word_of_int (speed div 256),
              word_of_int seconds, word_of_int (seconds div 256)] :: byte list"
  have "io (snd (setBoostMode self on speed seconds)) = io self @ [Write u ?bs]"
    using a b setBoostMode_on [of speed self u c seconds] by simp
  moreover have "unpack_BHH ?bs = Inr [1, speed, seconds]"
    using b by (simp add: unpack_BHH_def unpack_pack_H)
  ultimately show "\<exists>bs. io (snd (setBoostMode self on speed seconds)) = io self @ [Write u bs]
                 \<and> unpack_BHH bs = Inr [1, speed, seconds]"
    by blast
qed

text \<open>
  \<^verbatim>\<open>setBoostMode(on=False, speed=500, seconds=30)\<close> hands over a payload that unpacks
  to \<open>(0, 0, 0)\<close>; with \<open>on\<close> true it unpacks to \<open>(1, 500, 30)\<close>; speed 510 is rejected.
\<close>

theorem setBoostMode_payload_witness:
  "(510 :: int) mod 25 \<noteq> 0
   \<and> setBoostMode (fan_reading []) True 510 30
       = (Inl (ValueError ''Speed must be a multiple of 25''), fan_reading [])
   \<and> (500 :: int) mod 25 = 0
   \<and> chars (fan_reading []) CHARACTERISTIC_BOOST = Some (Const CHARACTERISTIC_BOOST)
   \<and> dev (fan_reading []) = Some (example_client True (reading []) None)
   \<and> (\<exists>bs. io (snd (setBoostMode (fan_reading []) False 500 30))
              = [Write (Const CHARACTERISTIC_BOOST) bs]
            \<and> unpack_BHH bs = Inr [0, 0, 0])
   \<and> (\<exists>bs. io (snd (setBoostMode (fan_reading []) True 500 30))
              = [Write (Const CHARACTERISTIC_BOOST) bs]
            \<and> unpack_BHH bs = Inr [1, 500, 30])"
  using setBoostMode_payload [where speed = 510 and self = "fan_reading []" and on = True
      and seconds = 30]
    setBoostMode_payload [where speed = 500 and self = "fan_reading []" and on = False
      and seconds = 30 and u = "Const CHARACTERISTIC_BOOST"
      and c = "example_client True (reading []) None"]
    setBoostMode_payload [where speed = 500 and self = "fan_reading []" and on = True
      and seconds = 30 and u = "Const CHARACTERISTIC_BOOST"
      and c = "example_client True (reading []) None"]
  by (simp add: fan_reading_simps)

text \<open>
  C6 as stated promises the supplied speed and seconds in the payload for every call
  with \<open>on\<close> true and a speed that is a multiple of 25. With seconds 70000 the value does
  not fit its 16-bit field: \<^verbatim>\<open>pack\<close> raises \<^verbatim>\<open>struct.error\<close> and nothing is handed
  to the transport.
\<close>

theorem setBoostMode_uint16_counterexample:
  "(2000 :: int) mod 25 = 0
   \<and> setBoostMode (fan_reading []) True 2000 70000 = (Inl StructError, fan_reading [])"
  by (simp add: setBoostMode_def device_chars_def fan_reading_simps pack_BHH_def pack_B_def
      pack_H_def pack_then_def)

section \<open>Connecting and disconnecting\<close>

lemma example_fan_simps:
  "dev (example_fan d) = d" "io (example_fan d) = []" "logged (example_fan d) = []"
  "chars (example_fan d) k = Some (Const k)"
  by (simp_all add: example_fan_def)

lemma example_client_simps:
  "is_connected (example_client live rd dr) = live"
  "read_gatt_char (example_client live rd dr) = rd"
  "disconnect_raises (example_client live rd dr) = dr"
  by (simp_all add: example_client_def)

lemma connect_loop_done: "\<not> t < r \<Longrightarrow> connect_loop env r t s = s"
  by (subst connect_loop.simps) simp

lemma attempts_logger [simp]: "attempts (logger lv msg s) = attempts s"
  by (simp add: attempts_def logger_def)

lemma isConnected_logger [simp]: "isConnected (logger lv msg s) = isConnected s"
  by (simp add: isConnected_def logger_def)

lemma attempts_try_connect: "attempts (snd (try_connect a s)) = attempts s + 1"
  by (cases a) (simp_all add: try_connect_def attempts_def)

lemma try_connect_fails:
  assumes "fails a" and "\<not> isConnected s"
  shows "\<not> isConnected (snd (try_connect a s))" and "fst (try_connect a s) \<noteq> Inr True"
  using assms by (cases a; simp add: try_connect_def fails_def isConnected_def)+

lemma try_connect_succeeds:
  assumes "succeeds a"
  shows "isConnected (snd (try_connect a s))" and "fst (try_connect a s) = Inr True"
  using assms by (cases a; simp add: try_connect_def succeeds_def isConnected_def)+

lemma connect_loop_fail_step:
  assumes "t < r" and "fails (env (t + 1))" and "\<not> isConnected s"
  shows "\<exists>s'. connect_loop env r t s = connect_loop env r (t + 1) s'
            \<and> attempts s' = attempts s + 1 \<and> \<not> isConnected s'"
proof -
  obtain res s1 where ts: "try_connect (env (t + 1)) s = (res, s1)"
    by (cases "try_connect (env (t + 1)) s")
  from try_connect_fails [OF assms(2,3)] attempts_try_connect [of "env (t + 1)" s] ts
  have f: "\<not> isConnected s1" "res \<noteq> Inr True" "attempts s1 = attempts s + 1" by simp_all
  show ?thesis
    using assms(1) ts f
    by (subst connect_loop.simps) (cases res; auto)
qed

lemma connect_loop_success_step:
  assumes "t < r" and "succeeds (env (t + 1))"
  shows "isConnected (connect_loop env r t s) \<and> attempts (connect_loop env r t s) = attempts s + 1"
proof -
  obtain res s1 where ts: "try_connect (env (t + 1)) s = (res, s1)"
    by (cases "try_connect (env (t + 1)) s")
  from try_connect_succeeds [OF assms(2), of s] attempts_try_connect [of "env (t + 1)" s] ts
  have f: "isConnected s1" "res = Inr True" "attempts s1 = attempts s + 1" by simp_all
  show ?thesis
    using assms(1) ts f by (subst (1 2) connect_loop.simps) simp
qed

lemma connect_loop_any_step:
  assumes "t < r"
  shows "(\<exists>s'. connect_loop env r t s = connect_loop env r (t + 1) s'
              \<and> attempts s' = attempts s + 1)
         \<or> attempts (connect_loop env r t s) = attempts s + 1"
proof -
  obtain res s1 where ts: "try_connect (env (t + 1)) s = (res, s1)"
    by (cases "try_connect (env (t + 1)) s")
  have a: "attempts s1 = attempts s + 1"
    using attempts_try_connect [of "env (t + 1)" s] ts by simp
  show ?thesis
  proof (cases res)
    case (Inl e)
    have "connect_loop env r t s =
            connect_loop env r (t + 1)
              (if t + 1 = r then logger INFO ''Not able to connect to %s! %s'' s1
               else logger DEBUG ''Retrying %s'' s1)"
      using assms ts Inl by (subst connect_loop.simps) simp
    with a show ?thesis by force
  next
    case (Inr ret)
    show ?thesis
    proof (cases ret)
      case True
      have "connect_loop env r t s = logger DEBUG ''Connected to %s'' s1"
        using assms ts Inr True by (subst connect_loop.simps) simp
      with a show ?thesis by simp
    next
      case False
      have "connect_loop env r t s = connect_loop env r (t + 1) s1"
        using assms ts Inr False by (subst connect_loop.simps) simp
      with a show ?thesis by force
    qed
  qed
qed

lemma connect_loop_bound_aux:
  "nat (r - t) = n \<Longrightarrow> attempts (connect_loop env r t s) \<le> attempts s + n"
proof (induction n arbitrary: t s)
  case 0
  then have "\<not> t < r" by simp
  then show ?case by (simp add: connect_loop_done)
next
  case (Suc n)
  then have lt: "t < r" and n: "nat (r - (t + 1)) = n" by simp_all
  from connect_loop_any_step [OF lt, of env s] show ?case
  proof
    assume "\<exists>s'. connect_loop env r t s = connect_loop env r (t + 1) s'
              \<and> attempts s' = attempts s + 1"
    then obtain s' where s': "connect_loop env r t s = connect_loop env r (t + 1) s'"
      "attempts s' = attempts s + 1" by blast
    from Suc.IH [OF n, of s'] s' show ?thesis by simp
  next
    assume "attempts (connect_loop env r t s) = attempts s + 1"
    then show ?thesis by simp
  qed
qed

lemma connect_loop_all_fail:
  "nat (r - t) = n \<Longrightarrow> \<not> isConnected s \<Longrightarrow> (\<And>i. t < i \<Longrightarrow> i \<le> r \<Longrightarrow> fails (env i)) \<Longrightarrow>
     \<not> isConnected (connect_loop env r t s)
     \<and> attempts (connect_loop env r t s) = attempts s + n"
proof (induction n arbitrary: t s)
  case 0
  then have "\<not> t < r" by simp
  with 0 show ?case by (simp add: connect_loop_done)
next
  case (Suc n)
  then have lt: "t < r" and n: "nat (r - (t + 1)) = n" by simp_all
  have "fails (env (t + 1))" using lt by (intro Suc.prems(3)) simp_all
  from connect_loop_fail_step [of t r env s, OF lt this Suc.prems(2)]
  obtain s' where s': "connect_loop env r t s = connect_loop env r (t + 1) s'"
      "attempts s' = attempts s + 1" "\<not> isConnected s'" by blast
  have "\<not> isConnected (connect_loop env r (t + 1) s')
     \<and> attempts (connect_loop env r (t + 1) s') = attempts s' + n"
    using Suc.prems(3) by (intro Suc.IH [OF n s'(3)]) simp_all
  with s' show ?case by simp
qed

lemma connect_loop_first_success:
  "nat (k - t) = Suc n \<Longrightarrow> k \<le> r \<Longrightarrow> \<not> isConnected s \<Longrightarrow>
     (\<And>i. t < i \<Longrightarrow> i < k \<Longrightarrow> fails (env i)) \<Longrightarrow> succeeds (env k) \<Longrightarrow>
     isConnected (connect_loop env r t s)
     \<and> attempts (connect_loop env r t s) = attempts s + Suc n"
proof (induction n arbitrary: t s)
  case 0
  then have k: "k = t + 1" by simp
  with 0 have "t < r" by simp
  from connect_loop_success_step [OF this, of env s] 0(5) k show ?case by simp
next
  case (Suc n)
  then have lt: "t < r" and tk: "t + 1 < k" and n: "nat (k - (t + 1)) = Suc n" by simp_all
  have "fails (env (t + 1))" using tk by (intro Suc.prems(4)) simp_all
  from connect_loop_fail_step [of t r env s, OF lt this Suc.prems(3)]
  obtain s' where s': "connect_loop env r t s = connect_loop env r (t + 1) s'"
      "attempts s' = attempts s + 1" "\<not> isConnected s'" by blast
  have "isConnected (connect_loop env r (t + 1) s')
     \<and> attempts (connect_loop env r (t + 1) s') = attempts s' + Suc n"
    using Suc.prems(4,5) by (intro Suc.IH [OF n Suc.prems(2) s'(3)]) simp_all
  with s' show ?case by simp
qed

text \<open>
  C7. \<^verbatim>\<open>connect\<close> never raises: its result is a boolean. When the client is already
  connected it returns true and the object is as before (no attempt is made). Otherwise
  it makes at most \<open>retries\<close> attempts (none when \<open>retries\<close> is not positive); if the
  attempts before the \<open>k\<close>-th fail and the \<open>k\<close>-th succeeds, \<open>k \<le> retries\<close>, it returns
  true after exactly \<open>k\<close> attempts; if all attempts fail it returns false after
  \<open>retries\<close> attempts. An address that is not found is a failed attempt.
\<close>

theorem connect_retries:
  "(isConnected self \<longrightarrow> connect env self retries = (Inr True, self))
   \<and> (\<exists>b. fst (connect env self retries) = Inr b)
   \<and> int (attempts (snd (connect env self retries))) \<le> int (attempts self) + max 0 retries
   \<and> (\<not> isConnected self \<and> 0 < k \<and> k \<le> retries
        \<and> (\<forall>i. 0 < i \<and> i < k \<longrightarrow> fails (env i)) \<and> succeeds (env k) \<longrightarrow>
        fst (connect env self retries) = Inr True
        \<and> int (attempts (snd (connect env self retries))) = int (attempts self) + k)
   \<and> (\<not> isConnected self \<and> (\<forall>i. 0 < i \<and> i \<le> retries \<longrightarrow> fails (env i)) \<longrightarrow>
        fst (connect env self retries) = Inr False
        \<and> int (attempts (snd (connect env self retries))) = int (attempts self) + max 0 retries)"
proof (intro conjI impI)
  assume "isConnected self"
  then show "connect env self retries = (Inr True, self)" by (simp add: connect_def)
next
  show "\<exists>b. fst (connect env self retries) = Inr b"
    by (cases "isConnected self") (auto simp add: connect_def Let_def)
next
  let ?s = "logger DEBUG ''Connecting to %s'' self"
  have "attempts (connect_loop env retries 0 ?s) \<le> attempts ?s + nat (retries - 0)"
    by (rule connect_loop_bound_aux) simp
  then have "int (attempts (connect_loop env retries 0 ?s)) \<le> int (attempts self) + max 0 retries"
    by (simp add: max_def) linarith
  then show "int (attempts (snd (connect env self retries))) \<le> int (attempts self) + max 0 retries"
    by (simp add: connect_def Let_def)
next
  let ?s = "logger DEBUG ''Connecting to %s'' self"
  assume a: "\<not> isConnected self \<and> 0 < k \<and> k \<le> retries
        \<and> (\<forall>i. 0 < i \<and> i < k \<longrightarrow> fails (env i)) \<and> succeeds (env k)"
  then obtain n where n: "nat (k - 0) = Suc n" by (cases "nat (k - 0)") simp_all
  have "isConnected (connect_loop env retries 0 ?s)
     \<and> attempts (connect_loop env retries 0 ?s) = attempts ?s + Suc n"
    using a by (intro connect_loop_first_success [OF n]) simp_all
  moreover have "int (Suc n) = k" using n a by linarith
  ultimately have "isConnected (connect_loop env retries 0 ?s)
     \<and> int (attempts (connect_loop env retries 0 ?s)) = int (attempts self) + k"
    by simp
  with a show "fst (connect env self retries) = Inr True"
    and "int (attempts (snd (connect env self retries))) = int (attempts self) + k"
    by (simp_all add: connect_def Let_def)
next
  let ?s = "logger DEBUG ''Connecting to %s'' self"
  assume a: "\<not> isConnected self \<and> (\<forall>i. 0 < i \<and> i \<le> retries \<longrightarrow> fails (env i))"
  have "\<not> isConnected (connect_loop env retries 0 ?s)
     \<and> attempts (connect_loop env retries 0 ?s) = attempts ?s + nat (retries - 0)"
    using a by (intro connect_loop_all_fail) simp_all
  with a show "fst (connect env self retries) = Inr False"
    and "int (attempts (snd (connect env self retries))) = int (attempts self) + max 0 retries"
    by (simp_all add: connect_def Let_def max_def)
qed

text \<open>
  With \<open>retries = 3\<close>: an address not found, then a \<^verbatim>\<open>connect()\<close> that raises, then a
  success, gives true after 3 attempts; an address never found gives false after 3
  attempts; a fan already connected is left alone.
\<close>

theorem connect_retries_witness:
  "isConnected (example_fan (Some (example_client True (reading []) None)))
   \<and> connect never_found (example_fan (Some (example_client True (reading []) None))) 3
       = (Inr True, example_fan (Some (example_client True (reading []) None)))
   \<and> \<not> isConnected (example_fan None) \<and> attempts (example_fan None) = 0
   \<and> fails (third_time 1) \<and> fails (third_time 2) \<and> succeeds (third_time 3)
   \<and> fst (connect third_time (example_fan None) 3) = Inr True
   \<and> attempts (snd (connect third_time (example_fan None) 3)) = 3
   \<and> fails (never_found 1) \<and> fails (never_found 2) \<and> fails (never_found 3)
   \<and> fst (connect never_found (example_fan None) 3) = Inr False
   \<and> attempts (snd (connect never_found (example_fan None) 3)) = 3"
proof -
  have c: "isConnected (example_fan (Some (example_client True (reading []) None)))"
    and n: "\<not> isConnected (example_fan None)" and z: "attempts (example_fan None) = 0"
    by (simp_all add: isConnected_def attempts_def example_fan_simps example_client_simps)
  have f3: "fails (third_time 1)" "fails (third_time 2)" "succeeds (third_time 3)"
    by (simp_all add: third_time_def fails_def succeeds_def example_client_simps)
  have fn: "fails (never_found i)" for i
    by (simp add: never_found_def fails_def)
  have "\<forall>i. 0 < i \<and> i < 3 \<longrightarrow> fails (third_time i)"
  proof (intro allI impI)
    fix i :: int assume "0 < i \<and> i < 3"
    then have "i = 1 \<or> i = 2" by auto
    with f3 show "fails (third_time i)" by auto
  qed
  with connect_retries [of "example_fan None" third_time 3 3] n f3 z
  have 3: "fst (connect third_time (example_fan None) 3) = Inr True"
    "attempts (snd (connect third_time (example_fan None) 3)) = 3"
    by simp_all
  from connect_retries [of "example_fan None" never_found 3] n fn z
  have 0: "fst (connect never_found (example_fan None) 3) = Inr False"
    "attempts (snd (connect never_found (example_fan None) 3)) = 3"
    by simp_all
  from connect_retries [of "example_fan (Some (example_client True (reading []) None))"
      never_found 3] c
  have 1: "connect never_found (example_fan (Some (example_client True (reading []) None))) 3
       = (Inr True, example_fan (Some (example_client True (reading []) None)))"
    by simp
  from c n z f3 fn 3 0 1 show ?thesis by simp
qed

text \<open>
  C8. \<^verbatim>\<open>disconnect\<close> never raises, and afterwards there is no client and
  \<^verbatim>\<open>isConnected\<close> is false. With no client the object is as before; with a client the
  transport is asked to disconnect, and an exception of that call is logged, not raised.
\<close>

theorem disconnect_clears:
  "fst (disconnect self) = Inr ()
   \<and> dev (snd (disconnect self)) = None
   \<and> \<not> isConnected (snd (disconnect self))
   \<and> (dev self = None \<longrightarrow> snd (disconnect self) = self)
   \<and> (\<forall>c. dev self = Some c \<longrightarrow>
          io (snd (disconnect self)) = io self @ [Disconnect]
          \<and> (\<forall>e. disconnect_raises c = Some e \<longrightarrow>
                logged (snd (disconnect self)) =
                  logged self @ [(INFO, ''Error disconnecting from %s! %s'')]))"
  by (cases "dev self")
     (auto simp add: disconnect_def isConnected_def Let_def logger_def split: option.splits)

text \<open>A live client whose \<^verbatim>\<open>disconnect()\<close> raises, and a fan without a client.\<close>

theorem disconnect_clears_witness:
  "dev (example_fan (Some (example_client True (reading []) (Some (TransportError ''gone'')))))
     = Some (example_client True (reading []) (Some (TransportError ''gone'')))
   \<and> disconnect_raises (example_client True (reading []) (Some (TransportError ''gone'')))
     = Some (TransportError ''gone'')
   \<and> isConnected (example_fan (Some (example_client True (reading []) (Some (TransportError ''gone'')))))
   \<and> fst (disconnect (example_fan (Some (example_client True (reading []) (Some (TransportError ''gone'')))))) = Inr ()
   \<and> \<not> isConnected (snd (disconnect (example_fan (Some (example_client True (reading []) (Some (TransportError ''gone'')))))))
   \<and> io (snd (disconnect (example_fan (Some (example_client True (reading []) (Some (TransportError ''gone''))))))) = [Disconnect]
   \<and> logged (snd (disconnect (example_fan (Some (example_client True (reading []) (Some (TransportError ''gone'')))))))
       = [(INFO, ''Error disconnecting from %s! %s'')]
   \<and> dev (example_fan None) = None
   \<and> snd (disconnect (example_fan None)) = example_fan None"
  using disconnect_clears [of "example_fan (Some (example_client True (reading []) (Some (TransportError ''gone''))))"]
    disconnect_clears [of "example_fan None"]
  by (simp add: example_fan_simps example_client_simps isConnected_def)

section \<open>Authorization\<close>

text \<open>
  C9 against the code. \<^verbatim>\<open>authorize\<close> calls \<^verbatim>\<open>setAuth\<close>, which looks up
  \<^verbatim>\<open>self.chars\<close>; a \<^verbatim>\<open>BleFan\<close> has no such attribute, so the call raises
  \<^verbatim>\<open>AttributeError\<close> before the PIN is packed, and the object is as before: the PIN
  characteristic is never written.
\<close>

theorem authorize_raises: "authorize self = (Inl (AttributeError ''chars''), self)"
  by (simp add: authorize_def setAuth_def getattr_def BleFan_attributes_def)

text \<open>
  What \<^verbatim>\<open>setAuth\<close> would hand over had the lookup succeeded: four bytes, least
  significant first. And \<^verbatim>\<open>checkAuth\<close> is true exactly when the byte read is nonzero.
\<close>

lemma pack_I_little_endian:
  assumes "0 \<le> p" and "p \<le> 4294967295"
  shows "\<exists>b0 b1 b2 b3. pack_I p = Inr [b0, b1, b2, b3]
           \<and> uint b0 + 256 * uint b1 + 65536 * uint b2 + 16777216 * uint b3 = p"
proof -
  define q1 q2 q3 where "q1 = p div 256" and "q2 = q1 div 256" and "q3 = q2 div 256"
  have e1: "p = p mod 256 + 256 * q1" and e2: "q1 = q1 mod 256 + 256 * q2"
    and e3: "q2 = q2 mod 256 + 256 * q3"
    by (simp_all add: q1_def q2_def q3_def)
  have d2: "p div 65536 = q2" and d3: "p div 16777216 = q3"
    by (simp_all add: q1_def q2_def q3_def)
  have "0 \<le> q3" "q3 < 256" using assms unfolding d3 [symmetric] by simp_all
  then have e4: "q3 mod 256 = q3" by simp
  have "p mod 256 + 256 * (q1 mod 256) + 65536 * (q2 mod 256) + 16777216 * (q3 mod 256) = p"
    unfolding e4 using e1 e2 e3 by linarith
  then show ?thesis
    using assms
    by (simp add: pack_I_def uint_word_of_int take_bit_eq_mod d2 d3 q1_def [symmetric])
qed

lemma checkAuth_nonzero:
  assumes "chars self CHARACTERISTIC_PIN_CONFIRMATION = Some u" and "dev self = Some c"
    and "read_gatt_char c u = Inr [b]"
  shows "fst (checkAuth self) = Inr (b \<noteq> 0)"
  using assms
  by (simp add: checkAuth_def device_chars_def readUUID_def unpack_b_def signed_eq_0_iff)

section \<open>Alias\<close>

text \<open>
  C10 against the code. \<^verbatim>\<open>getAlias\<close> looks up \<^verbatim>\<open>decode\<close> on the coroutine object
  of \<^verbatim>\<open>self._readUUID(...)\<close> instead of on the bytes it would produce, so it raises
  \<^verbatim>\<open>AttributeError\<close> (or \<^verbatim>\<open>KeyError\<close>, when the profile lacks the characteristic);
  nothing is read and no text is returned.
\<close>

theorem getAlias_raises:
  "getAlias self =
     (Inl (case chars self CHARACTERISTIC_FAN_DESCRIPTION of
             None \<Rightarrow> KeyError | Some u \<Rightarrow> AttributeError ''decode''), self)"
  by (simp add: getAlias_def device_chars_def getattr_def coroutine_attributes_def
      split: option.splits)

text \<open>\<^verbatim>\<open>setAlias\<close> does hand over exactly 20 bytes: the encoded name, cut or null-padded.\<close>

lemma length_pack_20s: "length (pack_20s b) = 20"
  by (simp add: pack_20s_def)

lemma pack_20s_prefix: "take (min 20 (length b)) (pack_20s b) = take 20 b"
  by (simp add: pack_20s_def min_def)

lemma pack_20s_padding: "drop (length b) (pack_20s b) = replicate (20 - length b) 0"
  by (simp add: pack_20s_def)

lemma setAlias_writes:
  assumes "chars self CHARACTERISTIC_FAN_DESCRIPTION = Some u" and "dev self = Some c"
    and "utf8_encode name = Inr b"
  shows "io (snd (setAlias self name)) = io self @ [Write u (pack_20s b)]"
  using assms by (simp add: setAlias_def device_chars_def writeUUID_def)

end
